theory Spec2Isabelle
  imports Main "HOL-Library.Sublist"
begin

section \<open>The configuration module \<open>mldr/core/config.py\<close>\<close>

text \<open>
  The module declares two dataclasses, \<open>ModelConfig\<close> and \<open>Config\<close>, a static table from
  model identifiers to environment-variable names, and four functions. Python objects
  have identity and can be mutated, and several statements about the module are about
  exactly that (``the exact instance'', ``a new instance on every call''), so objects
  live in an explicit store and fields that hold objects hold their addresses.
  Strings are immutable in Python and are modelled as values. A \<open>char\<close> stands for one
  code point in the range 0..255.
\<close>

subsection \<open>The store\<close>

type_synonym addr = nat

text \<open>\<open>ModelConfig\<close>: the three declared fields (config.py, lines 23-34).\<close>

record ModelConfig =
  enabled :: bool
  model_name :: string
  timeout_sec :: int

text \<open>
  \<open>Config\<close>: the seven declared fields (lines 37-61). \<open>primary_models\<close> refers to a list
  object and the five model fields refer to \<open>ModelConfig\<close> objects.
\<close>

record Config =
  primary_models :: addr
  chairman_model :: string
  gpt :: addr
  claude :: addr
  gemini :: addr
  perplexity :: addr
  grok :: addr

datatype obj =
  PyList "string list"
| PyModelConfig ModelConfig
| PyConfig Config

text \<open>
  The store is the list of all objects allocated so far, an object's address is its
  position. Allocation appends, so a new object never takes the address of an old one.
\<close>

type_synonym heap = "obj list"

definition lookup :: "heap \<Rightarrow> addr \<Rightarrow> obj option" where
  "lookup h a = (if a < length h then Some (h ! a) else None)"

definition alloc :: "heap \<Rightarrow> obj \<Rightarrow> addr \<times> heap" where
  "alloc h ob = (length h, h @ [ob])"

subsection \<open>Exceptions\<close>

text \<open>
  The exceptions the module can raise, each with its argument: \<open>ValueError\<close> with its
  message (lines 66, 68), \<open>KeyError\<close> with its message (line 80) or with the missing key
  (the failed dictionary subscript of line 103), and the \<open>TypeError\<close> that the operator
  \<open>in\<close> raises on an object that is not a container.
\<close>

datatype error =
  ValueError string
| KeyError string
| TypeError

subsection \<open>\<open>ModelConfig\<close> construction\<close>

text \<open>
  \<open>ModelConfig(enabled, model_name, timeout_sec=600)\<close>: the generated constructor stores
  its arguments; \<open>None\<close> for \<open>timeout_sec\<close> stands for an argument that was left out.
\<close>

definition ModelConfig_init :: "heap \<Rightarrow> bool \<Rightarrow> string \<Rightarrow> int option \<Rightarrow> addr \<times> heap" where
  "ModelConfig_init h en name timeout =
     alloc h (PyModelConfig
       \<lparr>enabled = en, model_name = name,
        timeout_sec = (case timeout of None \<Rightarrow> 600 | Some t \<Rightarrow> t)\<rparr>)"

subsection \<open>The table of environment variables\<close>

text \<open>\<open>_API_KEY_ENV_VARS\<close> (lines 14-20), in the order of the dictionary display.\<close>

definition API_KEY_ENV_VARS :: "(string \<times> string) list" where
  "API_KEY_ENV_VARS =
     [(''gpt'', ''OPENAI_API_KEY''),
      (''claude'', ''ANTHROPIC_API_KEY''),
      (''gemini'', ''GOOGLE_API_KEY''),
      (''perplexity'', ''PERPLEXITY_API_KEY''),
      (''grok'', ''GROK_API_KEY'')]"

text \<open>
  \<open>get_env_var_name\<close> (lines 101-103): the subscript \<open>_API_KEY_ENV_VARS[model_id]\<close>, which
  raises \<open>KeyError(model_id)\<close> for a key the dictionary does not hold.
\<close>

definition get_env_var_name :: "string \<Rightarrow> error + string" where
  "get_env_var_name model_id =
     (case map_of API_KEY_ENV_VARS model_id of
        None \<Rightarrow> Inl (KeyError model_id)
      | Some env_var \<Rightarrow> Inr env_var)"

subsection \<open>Rendering a list of strings\<close>

text \<open>
  The second error message of \<open>__post_init__\<close> interpolates \<open>self.primary_models\<close> into an
  f-string, which renders a list as Python's \<open>repr\<close> does: the \<open>repr\<close> of each element,
  separated by a comma and a space, in square brackets. The \<open>repr\<close> of a string puts it
  in single quotes (in double quotes when it holds a single quote and no double quote),
  escapes the quote character, the backslash, tab, newline and carriage return, and
  writes every other code point that is not printable as \<open>\xNN\<close>. Among the code points
  0..255 the printable ones are 32..126 and 161..255 without 173.
\<close>

definition hex_digit :: "nat \<Rightarrow> char" where
  "hex_digit n = ''0123456789abcdef'' ! (n mod 16)"

definition isprintable :: "char \<Rightarrow> bool" where
  "isprintable c =
     (let n = (of_char c :: nat) in (32 \<le> n \<and> n < 127) \<or> (161 \<le> n \<and> n \<noteq> 173))"

definition repr_char :: "char \<Rightarrow> char \<Rightarrow> string" where
  "repr_char quote c =
     (if c = quote \<or> c = CHR 0x5C then [CHR 0x5C, c]
      else if c = CHR 0x09 then [CHR 0x5C, CHR ''t'']
      else if c = CHR 0x0A then [CHR 0x5C, CHR ''n'']
      else if c = CHR 0x0D then [CHR 0x5C, CHR ''r'']
      else if isprintable c then [c]
      else [CHR 0x5C, CHR ''x'', hex_digit (of_char c div 16), hex_digit (of_char c)])"

definition repr_str :: "string \<Rightarrow> string" where
  "repr_str s =
     (let quote = (if CHR 0x27 \<in> set s \<and> CHR 0x22 \<notin> set s then CHR 0x22 else CHR 0x27)
      in [quote] @ concat (map (repr_char quote) s) @ [quote])"

fun join :: "string \<Rightarrow> string list \<Rightarrow> string" where
  "join sep [] = []"
| "join sep [x] = x"
| "join sep (x # y # ys) = x @ sep @ join sep (y # ys)"

definition repr_list :: "string list \<Rightarrow> string" where
  "repr_list xs = ''['' @ join '', '' (map repr_str xs) @ '']''"

subsection \<open>\<open>Config\<close> construction\<close>

text \<open>
  \<open>__post_init__\<close> (lines 63-71) reads the two fields of \<open>self\<close> and raises or returns
  \<open>None\<close>. \<open>not self.primary_models\<close> is true of the empty list. An object of the store
  that is not a list is a dataclass instance: it is truthy and \<open>in\<close> raises \<open>TypeError\<close>
  on it. (An address outside the store does not occur in Python; the model gives it
  the same result.)
\<close>

definition post_init :: "heap \<Rightarrow> Config \<Rightarrow> error + unit" where
  "post_init h self =
     (case lookup h (primary_models self) of
        Some (PyList xs) \<Rightarrow>
          if xs = [] then
            Inl (ValueError ''primary_models must contain at least one model'')
          else if chairman_model self \<notin> set xs then
            Inl (ValueError
              (''chairman_model='' @ [CHR 0x27] @ chairman_model self @ [CHR 0x27]
                @ '' must be included in '' @ ''primary_models='' @ repr_list xs))
          else Inr ()
      | _ \<Rightarrow> Inl TypeError)"

text \<open>The five \<open>default_factory\<close> lambdas (lines 45-61); each call builds a new object.\<close>

definition default_gpt :: "heap \<Rightarrow> addr \<times> heap" where
  "default_gpt h = ModelConfig_init h True ''gpt-4o'' None"

definition default_claude :: "heap \<Rightarrow> addr \<times> heap" where
  "default_claude h = ModelConfig_init h True ''claude-sonnet-4-20250514'' None"

definition default_gemini :: "heap \<Rightarrow> addr \<times> heap" where
  "default_gemini h = ModelConfig_init h False ''gemini-1.5-pro'' None"

definition default_perplexity :: "heap \<Rightarrow> addr \<times> heap" where
  "default_perplexity h = ModelConfig_init h False ''sonar-pro'' None"

definition default_grok :: "heap \<Rightarrow> addr \<times> heap" where
  "default_grok h = ModelConfig_init h False ''grok-2'' None"

text \<open>A field with a \<open>default_factory\<close>: the argument when given, else the factory's result.\<close>

definition field_value :: "heap \<Rightarrow> addr option \<Rightarrow> (heap \<Rightarrow> addr \<times> heap) \<Rightarrow> addr \<times> heap" where
  "field_value h arg factory = (case arg of Some a \<Rightarrow> (a, h) | None \<Rightarrow> factory h)"

text \<open>
  \<open>Config(primary_models, chairman_model="gpt", gpt=..., claude=..., gemini=...,
  perplexity=..., grok=...)\<close>: the constructor that \<open>@dataclass\<close> generates. It stores the
  arguments in the fields in their declared order, calling the factory of a model field
  whose argument was left out (\<open>None\<close>), and then calls \<open>__post_init__\<close>; an exception of
  \<open>__post_init__\<close> leaves the constructor, and no object is returned. The model allocates
  the object once its fields are known.
\<close>

text \<open>The parameter \<open>chairman_model\<close>: the argument, or the default \<open>"gpt"\<close> (line 42).\<close>

definition chairman_arg :: "string option \<Rightarrow> string" where
  "chairman_arg cm = (case cm of None \<Rightarrow> ''gpt'' | Some m \<Rightarrow> m)"

definition Config_init ::
  "heap \<Rightarrow> addr \<Rightarrow> string option \<Rightarrow> addr option \<Rightarrow> addr option \<Rightarrow> addr option \<Rightarrow>
   addr option \<Rightarrow> addr option \<Rightarrow> error + (addr \<times> heap)" where
  "Config_init h pm cm a_gpt a_claude a_gemini a_perplexity a_grok =
     (let (r_gpt, h1) = field_value h a_gpt default_gpt;
          (r_claude, h2) = field_value h1 a_claude default_claude;
          (r_gemini, h3) = field_value h2 a_gemini default_gemini;
          (r_perplexity, h4) = field_value h3 a_perplexity default_perplexity;
          (r_grok, h5) = field_value h4 a_grok default_grok;
          self = \<lparr>primary_models = pm,
                  chairman_model = chairman_arg cm,
                  gpt = r_gpt, claude = r_claude, gemini = r_gemini,
                  perplexity = r_perplexity, grok = r_grok\<rparr>;
          (a, h6) = alloc h5 (PyConfig self)
      in case post_init h6 self of
           Inl e \<Rightarrow> Inl e
         | Inr _ \<Rightarrow> Inr (a, h6))"

text \<open>
  \<open>default_config\<close> (lines 106-111): the list display builds a new list on every call.
\<close>

definition default_config :: "heap \<Rightarrow> error + (addr \<times> heap)" where
  "default_config h =
     (let (pm, h1) = alloc h (PyList [''gpt'', ''claude''])
      in Config_init h1 pm None None None None None None)"

text \<open>
  The class is declared with \<open>@dataclass\<close> and without \<open>frozen=True\<close>, so the assignment
  \<open>cfg.chairman_model = v\<close> stores \<open>v\<close> in the field of the object and runs no other
  code, \<open>__post_init__\<close> included. \<open>a\<close> is the address of \<open>cfg\<close>. The assignment is
  modelled for a \<open>Config\<close> object only: at any other address the model reports an
  error, and no statement below uses it there.
\<close>

definition assign_chairman_model :: "heap \<Rightarrow> addr \<Rightarrow> string \<Rightarrow> error + heap" where
  "assign_chairman_model h a v =
     (case lookup h a of
        Some (PyConfig cfg) \<Rightarrow> Inr (h[a := PyConfig (cfg\<lparr>chairman_model := v\<rparr>)])
      | _ \<Rightarrow> Inl TypeError)"

text \<open>
  The two conditions \<open>__post_init__\<close> checks, read off the object at an address.
\<close>

definition Config_valid :: "heap \<Rightarrow> addr \<Rightarrow> bool" where
  "Config_valid h a =
     (case lookup h a of
        Some (PyConfig cfg) \<Rightarrow>
          (case lookup h (primary_models cfg) of
             Some (PyList xs) \<Rightarrow> xs \<noteq> [] \<and> chairman_model cfg \<in> set xs
           | _ \<Rightarrow> False)
      | _ \<Rightarrow> False)"

text \<open>The objects a \<open>Config\<close> holds in its fields, and a \<open>Config\<close> together with them.\<close>

definition Config_refs :: "Config \<Rightarrow> addr list" where
  "Config_refs cfg =
     [primary_models cfg, gpt cfg, claude cfg, gemini cfg, perplexity cfg, grok cfg]"

definition objects_of :: "heap \<Rightarrow> addr \<Rightarrow> addr set" where
  "objects_of h a =
     (case lookup h a of
        Some (PyConfig cfg) \<Rightarrow> insert a (set (Config_refs cfg))
      | _ \<Rightarrow> {a})"

subsection \<open>\<open>get_model_config\<close>\<close>

text \<open>
  What \<open>getattr\<close> can return on a \<open>Config\<close>: a string, a reference to an object, a method
  of the class bound to the instance, or an attribute that the instance inherits from
  \<open>object\<close> or that \<open>@dataclass\<close> added to the class (\<open>__class__\<close>, \<open>__init__\<close>, \<open>__eq__\<close>,
  \<open>__dataclass_fields__\<close>, ...).
\<close>

datatype pyval =
  Str string
| Ref addr
| BoundMethod string
| Inherited string

text \<open>
  Attribute lookup on a \<open>Config\<close> instance. The seven fields are in the instance's
  dictionary; \<open>__post_init__\<close> and \<open>get_model_config\<close> are the functions the class body
  defines. The names that \<open>object\<close> and \<open>@dataclass\<close> supply are not written in the source:
  \<open>inherited\<close> says which names they are.
\<close>

definition Config_getattr :: "(string \<Rightarrow> bool) \<Rightarrow> Config \<Rightarrow> string \<Rightarrow> pyval option" where
  "Config_getattr inherited self name =
     (if name = ''primary_models'' then Some (Ref (primary_models self))
      else if name = ''chairman_model'' then Some (Str (chairman_model self))
      else if name = ''gpt'' then Some (Ref (gpt self))
      else if name = ''claude'' then Some (Ref (claude self))
      else if name = ''gemini'' then Some (Ref (gemini self))
      else if name = ''perplexity'' then Some (Ref (perplexity self))
      else if name = ''grok'' then Some (Ref (grok self))
      else if name = ''__post_init__'' \<or> name = ''get_model_config'' then Some (BoundMethod name)
      else if inherited name then Some (Inherited name)
      else None)"

text \<open>
  \<open>get_model_config\<close> (lines 73-81). \<open>hasattr(self, model_id)\<close> is false exactly when
  \<open>getattr(self, model_id)\<close> finds no attribute; then the function raises \<open>KeyError\<close>
  with its message, and otherwise it returns what \<open>getattr\<close> finds.
\<close>

definition get_model_config :: "(string \<Rightarrow> bool) \<Rightarrow> Config \<Rightarrow> string \<Rightarrow> error + pyval" where
  "get_model_config inherited self model_id =
     (case Config_getattr inherited self model_id of
        None \<Rightarrow> Inl (KeyError (''Unknown model_id: '' @ [CHR 0x27] @ model_id @ [CHR 0x27]))
      | Some v \<Rightarrow> Inr v)"

subsection \<open>\<open>load_api_keys\<close>\<close>

text \<open>
  \<open>str.strip()\<close> removes the leading and the trailing whitespace. Among the code points
  0..255 Python's whitespace is 9..13, 28..32, 133 and 160.
\<close>

definition isspace :: "char \<Rightarrow> bool" where
  "isspace c =
     (let n = (of_char c :: nat)
      in (9 \<le> n \<and> n \<le> 13) \<or> (28 \<le> n \<and> n \<le> 32) \<or> n = 133 \<or> n = 160)"

definition strip :: "string \<Rightarrow> string" where
  "strip s = rev (dropWhile isspace (rev (dropWhile isspace s)))"

text \<open>
  The body of the loop of \<open>load_api_keys\<close> (lines 92-97) for one item of the table.
  \<open>env\<close> is the environment: \<open>env v\<close> is \<open>os.environ.get(v)\<close>. A string is truthy when it
  is not empty.
\<close>

definition load_step ::
  "(string \<rightharpoonup> string) \<Rightarrow> string \<times> string \<Rightarrow> (string \<rightharpoonup> string) \<Rightarrow> (string \<rightharpoonup> string)" where
  "load_step env item keys =
     (case item of (model_id, env_var) \<Rightarrow>
        (case env env_var of
           None \<Rightarrow> keys
         | Some val \<Rightarrow>
             if val \<noteq> [] then
               (let val' = strip val
                in if val' \<noteq> [] then keys(model_id \<mapsto> val') else keys)
             else keys))"

text \<open>\<open>load_api_keys\<close> (lines 84-98): the loop over the items of the table, from \<open>{}\<close>.\<close>

definition load_api_keys :: "(string \<rightharpoonup> string) \<Rightarrow> (string \<rightharpoonup> string)" where
  "load_api_keys env = fold (load_step env) API_KEY_ENV_VARS Map.empty"

section \<open>Properties\<close>

subsection \<open>\<open>ModelConfig\<close>\<close>

text \<open>
  C9. Constructing a \<open>ModelConfig\<close> without \<open>timeout_sec\<close> gives an object whose
  \<open>timeout_sec\<close> is 600, and constructing it with an explicit \<open>timeout_sec\<close> gives an
  object with exactly that value. The object is the one stored at the returned address;
  its other two fields are the arguments.
\<close>

theorem ModelConfig_timeout_default:
  "lookup (snd (ModelConfig_init h en name None)) (fst (ModelConfig_init h en name None))
     = Some (PyModelConfig \<lparr>enabled = en, model_name = name, timeout_sec = 600\<rparr>)
   \<and> lookup (snd (ModelConfig_init h en name (Some t))) (fst (ModelConfig_init h en name (Some t)))
     = Some (PyModelConfig \<lparr>enabled = en, model_name = name, timeout_sec = t\<rparr>)"
  by (simp add: ModelConfig_init_def alloc_def lookup_def)

subsection \<open>Facts about the store and the constructor\<close>

lemma lookup_append: "lookup h a = Some ob \<Longrightarrow> lookup (h @ zs) a = Some ob"
  by (auto simp: lookup_def nth_append split: if_splits)

lemma lookup_new: "lookup (h @ [ob]) (length h) = Some ob"
  by (simp add: lookup_def)

lemma field_value_appends:
  assumes "f = default_gpt \<or> f = default_claude \<or> f = default_gemini
             \<or> f = default_perplexity \<or> f = default_grok"
  shows "\<exists>r zs. field_value h arg f = (r, h @ zs)"
  using assms
  by (cases arg)
     (auto simp: field_value_def default_gpt_def default_claude_def default_gemini_def
        default_perplexity_def default_grok_def ModelConfig_init_def alloc_def)

lemma Config_init_built:
  "\<exists>ys self.
     Config_init h pm cm g c ge p gr =
       (case post_init (h @ ys @ [PyConfig self]) self of
          Inl e \<Rightarrow> Inl e
        | Inr u \<Rightarrow> Inr (length (h @ ys), h @ ys @ [PyConfig self]))
     \<and> primary_models self = pm \<and> chairman_model self = chairman_arg cm"
proof -
  obtain r1 z1 where s1: "field_value h g default_gpt = (r1, h @ z1)"
    using field_value_appends by blast
  obtain r2 z2 where s2: "field_value (h @ z1) c default_claude = (r2, (h @ z1) @ z2)"
    using field_value_appends by blast
  obtain r3 z3 where s3: "field_value (h @ z1 @ z2) ge default_gemini = (r3, (h @ z1 @ z2) @ z3)"
    using field_value_appends by blast
  obtain r4 z4 where s4:
    "field_value (h @ z1 @ z2 @ z3) p default_perplexity = (r4, (h @ z1 @ z2 @ z3) @ z4)"
    using field_value_appends by blast
  obtain r5 z5 where s5:
    "field_value (h @ z1 @ z2 @ z3 @ z4) gr default_grok = (r5, (h @ z1 @ z2 @ z3 @ z4) @ z5)"
    using field_value_appends by blast
  let ?self = "\<lparr>primary_models = pm, chairman_model = chairman_arg cm, gpt = r1, claude = r2,
                gemini = r3, perplexity = r4, grok = r5\<rparr>"
  have "Config_init h pm cm g c ge p gr =
       (case post_init (h @ (z1 @ z2 @ z3 @ z4 @ z5) @ [PyConfig ?self]) ?self of
          Inl e \<Rightarrow> Inl e
        | Inr u \<Rightarrow> Inr (length (h @ (z1 @ z2 @ z3 @ z4 @ z5)),
                     h @ (z1 @ z2 @ z3 @ z4 @ z5) @ [PyConfig ?self]))"
    using s1 s2 s3 s4 s5 by (simp add: Config_init_def alloc_def Let_def split: sum.split)
  then show ?thesis
    by (intro exI[of _ "z1 @ z2 @ z3 @ z4 @ z5"] exI[of _ ?self]) simp
qed

lemma post_init_ok:
  assumes "lookup h (primary_models self) = Some (PyList xs)"
  shows "post_init h self =
     (if xs = [] then Inl (ValueError ''primary_models must contain at least one model'')
      else if chairman_model self \<notin> set xs then
        Inl (ValueError (''chairman_model='' @ [CHR 0x27] @ chairman_model self @ [CHR 0x27]
                @ '' must be included in '' @ ''primary_models='' @ repr_list xs))
      else Inr ())"
  using assms by (simp add: post_init_def)

subsection \<open>\<open>Config\<close> construction\<close>



text \<open>
  C3. For every \<open>chairman_model\<close>, constructing a \<open>Config\<close> with an empty \<open>primary_models\<close>
  raises \<open>ValueError\<close> with the message of the empty-list check. The chairman is never
  an element of the empty list, so the membership check would fail too: the message
  shows that the empty-list check comes first.
\<close>

theorem Config_init_empty:
  assumes "lookup h pm = Some (PyList [])"
  shows "Config_init h pm cm g c ge p gr =
           Inl (ValueError ''primary_models must contain at least one model'')"
proof -
  obtain ys self where
    ci: "Config_init h pm cm g c ge p gr =
       (case post_init (h @ ys @ [PyConfig self]) self of
          Inl e \<Rightarrow> Inl e
        | Inr u \<Rightarrow> Inr (length (h @ ys), h @ ys @ [PyConfig self]))"
    and pm: "primary_models self = pm"
    using Config_init_built by blast
  have "lookup (h @ ys @ [PyConfig self]) pm = Some (PyList [])"
    using assms by (rule lookup_append)
  then have "post_init (h @ ys @ [PyConfig self]) self =
      Inl (ValueError ''primary_models must contain at least one model'')"
    using pm by (simp add: post_init_ok)
  then show ?thesis using ci by simp
qed

theorem Config_init_empty_witness:
  "lookup [PyList []] 0 = Some (PyList [])
   \<and> Config_init [PyList []] 0 None None None None None None =
       Inl (ValueError ''primary_models must contain at least one model'')
   \<and> Config_init [PyList []] 0 (Some ''claude'') None None None None None =
       Inl (ValueError ''primary_models must contain at least one model'')"
proof -
  have l: "lookup [PyList []] 0 = Some (PyList [])" by (simp add: lookup_def)
  show ?thesis
    using l Config_init_empty[OF l, of None None None None None None]
      Config_init_empty[OF l, of "Some ''claude''" None None None None None]
    by simp
qed



text \<open>
  C10. Construction checks non-emptiness and membership and nothing else: for a list
  \<open>primary_models\<close> of any strings, it succeeds exactly when the list is not empty and
  holds the chairman. Duplicates and strings outside the five identifiers are accepted,
  as the example \<open>primary_models=["foo", "foo"]\<close>, \<open>chairman_model="foo"\<close> shows.
\<close>

theorem Config_init_validates_only:
  assumes "lookup h pm = Some (PyList xs)"
  shows "(\<exists>r. Config_init h pm cm g c ge p gr = Inr r) \<longleftrightarrow> (xs \<noteq> [] \<and> chairman_arg cm \<in> set xs)"
proof -
  obtain ys self where
    ci: "Config_init h pm cm g c ge p gr =
       (case post_init (h @ ys @ [PyConfig self]) self of
          Inl e \<Rightarrow> Inl e
        | Inr u \<Rightarrow> Inr (length (h @ ys), h @ ys @ [PyConfig self]))"
    and pm: "primary_models self = pm" and ch: "chairman_model self = chairman_arg cm"
    using Config_init_built by blast
  have "lookup (h @ ys @ [PyConfig self]) pm = Some (PyList xs)"
    using assms(1) by (rule lookup_append)
  then show ?thesis
    using ci pm ch by (simp add: post_init_ok)
qed

theorem Config_init_validates_only_witness:
  "\<exists>r. Config_init [PyList [''foo'', ''foo'']] 0 (Some ''foo'') None None None None None = Inr r"
  using Config_init_validates_only[of "[PyList [''foo'', ''foo'']]" 0 "[''foo'', ''foo'']"
      "Some ''foo''" None None None None None]
  by (simp add: lookup_def chairman_arg_def)

text \<open>
  C8, as amended. Every \<open>Config\<close> object that construction returns satisfies, in the store
  construction returns, that its \<open>primary_models\<close> is a non-empty list and that its
  \<open>chairman_model\<close> is an element of it.
\<close>

theorem Config_init_valid:
  assumes "Config_init h pm cm g c ge p gr = Inr (a, h')"
  shows "Config_valid h' a"
proof -
  obtain ys self where
    ci: "Config_init h pm cm g c ge p gr =
       (case post_init (h @ ys @ [PyConfig self]) self of
          Inl e \<Rightarrow> Inl e
        | Inr u \<Rightarrow> Inr (length (h @ ys), h @ ys @ [PyConfig self]))"
    using Config_init_built by blast
  let ?h = "h @ ys @ [PyConfig self]"
  from ci assms have ok: "post_init ?h self = Inr ()" and a: "a = length (h @ ys)" and h': "h' = ?h"
    by (auto split: sum.splits)
  from ok obtain xs where "lookup ?h (primary_models self) = Some (PyList xs)"
      and "xs \<noteq> []" and "chairman_model self \<in> set xs"
    by (auto simp: post_init_def split: option.splits obj.splits if_splits)
  moreover have "lookup ?h a = Some (PyConfig self)"
    using lookup_new[of "h @ ys" "PyConfig self"] a by simp
  ultimately show ?thesis
    using h' by (simp add: Config_valid_def)
qed

text \<open>
  The example \<open>cfg = Config(primary_models=["gpt"])\<close> in a store that holds the list at
  address 0 and nothing else: the five default \<open>ModelConfig\<close> objects take the addresses 1..5 and the
  \<open>Config\<close> the address 6.
\<close>

lemma Config_init_gpt_only:
  "Config_init [PyList [''gpt'']] 0 None None None None None None =
     Inr (6, [PyList [''gpt''],
              PyModelConfig \<lparr>enabled = True, model_name = ''gpt-4o'', timeout_sec = 600\<rparr>,
              PyModelConfig \<lparr>enabled = True, model_name = ''claude-sonnet-4-20250514'',
                             timeout_sec = 600\<rparr>,
              PyModelConfig \<lparr>enabled = False, model_name = ''gemini-1.5-pro'',
                             timeout_sec = 600\<rparr>,
              PyModelConfig \<lparr>enabled = False, model_name = ''sonar-pro'', timeout_sec = 600\<rparr>,
              PyModelConfig \<lparr>enabled = False, model_name = ''grok-2'', timeout_sec = 600\<rparr>,
              PyConfig \<lparr>primary_models = 0, chairman_model = ''gpt'', gpt = 1, claude = 2,
                        gemini = 3, perplexity = 4, grok = 5\<rparr>])"
  by (simp add: Config_init_def alloc_def field_value_def default_gpt_def
      default_claude_def default_gemini_def default_perplexity_def default_grok_def
      ModelConfig_init_def post_init_def lookup_def chairman_arg_def)

theorem Config_init_valid_witness:
  "\<exists>a h'. Config_init [PyList [''gpt'']] 0 None None None None None None = Inr (a, h')
     \<and> Config_valid h' a"
  using Config_init_valid[OF Config_init_gpt_only] Config_init_gpt_only by blast

text \<open>
  C8, as stated, does not hold. It says that a constructed \<open>Config\<close> satisfies the two
  conditions at all times, and that no operation can violate them later. After
  \<open>cfg = Config(primary_models=["gpt"])\<close> the assignment \<open>cfg.chairman_model = "claude"\<close>
  succeeds, and the object it leaves has a chairman that is not one of its primary
  models.
\<close>

theorem Config_invariant_counterexample:
  "Config_init [PyList [''gpt'']] 0 None None None None None None =
     Inr (6, [PyList [''gpt''],
              PyModelConfig \<lparr>enabled = True, model_name = ''gpt-4o'', timeout_sec = 600\<rparr>,
              PyModelConfig \<lparr>enabled = True, model_name = ''claude-sonnet-4-20250514'',
                             timeout_sec = 600\<rparr>,
              PyModelConfig \<lparr>enabled = False, model_name = ''gemini-1.5-pro'',
                             timeout_sec = 600\<rparr>,
              PyModelConfig \<lparr>enabled = False, model_name = ''sonar-pro'', timeout_sec = 600\<rparr>,
              PyModelConfig \<lparr>enabled = False, model_name = ''grok-2'', timeout_sec = 600\<rparr>,
              PyConfig \<lparr>primary_models = 0, chairman_model = ''gpt'', gpt = 1, claude = 2,
                        gemini = 3, perplexity = 4, grok = 5\<rparr>])
   \<and> assign_chairman_model
         [PyList [''gpt''],
          PyModelConfig \<lparr>enabled = True, model_name = ''gpt-4o'', timeout_sec = 600\<rparr>,
          PyModelConfig \<lparr>enabled = True, model_name = ''claude-sonnet-4-20250514'',
                         timeout_sec = 600\<rparr>,
          PyModelConfig \<lparr>enabled = False, model_name = ''gemini-1.5-pro'', timeout_sec = 600\<rparr>,
          PyModelConfig \<lparr>enabled = False, model_name = ''sonar-pro'', timeout_sec = 600\<rparr>,
          PyModelConfig \<lparr>enabled = False, model_name = ''grok-2'', timeout_sec = 600\<rparr>,
          PyConfig \<lparr>primary_models = 0, chairman_model = ''gpt'', gpt = 1, claude = 2,
                    gemini = 3, perplexity = 4, grok = 5\<rparr>]
         6 ''claude'' =
     Inr [PyList [''gpt''],
          PyModelConfig \<lparr>enabled = True, model_name = ''gpt-4o'', timeout_sec = 600\<rparr>,
          PyModelConfig \<lparr>enabled = True, model_name = ''claude-sonnet-4-20250514'',
                         timeout_sec = 600\<rparr>,
          PyModelConfig \<lparr>enabled = False, model_name = ''gemini-1.5-pro'', timeout_sec = 600\<rparr>,
          PyModelConfig \<lparr>enabled = False, model_name = ''sonar-pro'', timeout_sec = 600\<rparr>,
          PyModelConfig \<lparr>enabled = False, model_name = ''grok-2'', timeout_sec = 600\<rparr>,
          PyConfig \<lparr>primary_models = 0, chairman_model = ''claude'', gpt = 1, claude = 2,
                    gemini = 3, perplexity = 4, grok = 5\<rparr>]
   \<and> \<not> Config_valid
         [PyList [''gpt''],
          PyModelConfig \<lparr>enabled = True, model_name = ''gpt-4o'', timeout_sec = 600\<rparr>,
          PyModelConfig \<lparr>enabled = True, model_name = ''claude-sonnet-4-20250514'',
                         timeout_sec = 600\<rparr>,
          PyModelConfig \<lparr>enabled = False, model_name = ''gemini-1.5-pro'', timeout_sec = 600\<rparr>,
          PyModelConfig \<lparr>enabled = False, model_name = ''sonar-pro'', timeout_sec = 600\<rparr>,
          PyModelConfig \<lparr>enabled = False, model_name = ''grok-2'', timeout_sec = 600\<rparr>,
          PyConfig \<lparr>primary_models = 0, chairman_model = ''claude'', gpt = 1, claude = 2,
                    gemini = 3, perplexity = 4, grok = 5\<rparr>]
         6"
proof (intro conjI)
  show "Config_init [PyList [''gpt'']] 0 None None None None None None =
     Inr (6, [PyList [''gpt''],
              PyModelConfig \<lparr>enabled = True, model_name = ''gpt-4o'', timeout_sec = 600\<rparr>,
              PyModelConfig \<lparr>enabled = True, model_name = ''claude-sonnet-4-20250514'',
                             timeout_sec = 600\<rparr>,
              PyModelConfig \<lparr>enabled = False, model_name = ''gemini-1.5-pro'',
                             timeout_sec = 600\<rparr>,
              PyModelConfig \<lparr>enabled = False, model_name = ''sonar-pro'', timeout_sec = 600\<rparr>,
              PyModelConfig \<lparr>enabled = False, model_name = ''grok-2'', timeout_sec = 600\<rparr>,
              PyConfig \<lparr>primary_models = 0, chairman_model = ''gpt'', gpt = 1, claude = 2,
                        gemini = 3, perplexity = 4, grok = 5\<rparr>])"
    by (rule Config_init_gpt_only)
qed (simp_all add: assign_chairman_model_def Config_valid_def lookup_def)

subsection \<open>\<open>default_config\<close>\<close>

lemma default_config_eq:
  "default_config h =
     Inr (length h + 6,
          h @ [PyList [''gpt'', ''claude''],
               PyModelConfig \<lparr>enabled = True, model_name = ''gpt-4o'', timeout_sec = 600\<rparr>,
               PyModelConfig \<lparr>enabled = True, model_name = ''claude-sonnet-4-20250514'',
                              timeout_sec = 600\<rparr>,
               PyModelConfig \<lparr>enabled = False, model_name = ''gemini-1.5-pro'',
                              timeout_sec = 600\<rparr>,
               PyModelConfig \<lparr>enabled = False, model_name = ''sonar-pro'', timeout_sec = 600\<rparr>,
               PyModelConfig \<lparr>enabled = False, model_name = ''grok-2'', timeout_sec = 600\<rparr>,
               PyConfig \<lparr>primary_models = length h, chairman_model = ''gpt'',
                         gpt = length h + 1, claude = length h + 2, gemini = length h + 3,
                         perplexity = length h + 4, grok = length h + 5\<rparr>])"
proof -
  have l: "lookup (h @ PyList [''gpt'', ''claude''] # zs) (length h) = Some (PyList [''gpt'', ''claude''])" for zs
    by (simp add: lookup_def)
  show ?thesis
    by (simp add: default_config_def Config_init_def alloc_def field_value_def default_gpt_def
      default_claude_def default_gemini_def default_perplexity_def default_grok_def
      ModelConfig_init_def post_init_def l chairman_arg_def)
qed

lemma lookup_at: "lookup (h @ zs) (length h + k) = (if k < length zs then Some (zs ! k) else None)"
  by (simp add: lookup_def)

lemma objects_of_default:
  "default_config h = Inr (a, h') \<Longrightarrow>
     a = length h + 6 \<and> length h' = length h + 7 \<and>
     objects_of h' a = {length h + 6, length h, length h + 1, length h + 2, length h + 3,
                        length h + 4, length h + 5}"
  by (auto simp: default_config_eq objects_of_def Config_refs_def lookup_at)

text \<open>
  C7. Every call of \<open>default_config\<close> returns a newly constructed \<open>Config\<close>:
  its \<open>primary_models\<close> is the list \<open>["gpt", "claude"]\<close>, its \<open>chairman_model\<close> is \<open>"gpt"\<close>, its
  \<open>gpt\<close> and \<open>claude\<close> configurations are enabled and its \<open>gemini\<close>, \<open>perplexity\<close> and \<open>grok\<close>
  configurations are not. The \<open>Config\<close>, its list and its five \<open>ModelConfig\<close> objects are
  seven different objects, none of which was in the store before the call, and the
  objects that were there are unchanged. A call made in any later store (a store at
  least as long as the one this call leaves) returns a different object that shares none
  of the seven.
\<close>

theorem default_config_new_instance:
  "\<exists>a h' cfg m_gpt m_claude m_gemini m_perplexity m_grok.
     default_config h = Inr (a, h')
     \<and> lookup h' a = Some (PyConfig cfg)
     \<and> lookup h' (primary_models cfg) = Some (PyList [''gpt'', ''claude''])
     \<and> chairman_model cfg = ''gpt''
     \<and> lookup h' (gpt cfg) = Some (PyModelConfig m_gpt) \<and> enabled m_gpt
     \<and> lookup h' (claude cfg) = Some (PyModelConfig m_claude) \<and> enabled m_claude
     \<and> lookup h' (gemini cfg) = Some (PyModelConfig m_gemini) \<and> \<not> enabled m_gemini
     \<and> lookup h' (perplexity cfg) = Some (PyModelConfig m_perplexity) \<and> \<not> enabled m_perplexity
     \<and> lookup h' (grok cfg) = Some (PyModelConfig m_grok) \<and> \<not> enabled m_grok
     \<and> distinct (a # Config_refs cfg)
     \<and> (\<forall>b \<in> objects_of h' a. length h \<le> b \<and> b < length h')
     \<and> take (length h) h' = h
     \<and> (\<forall>h2. length h' \<le> length h2 \<longrightarrow>
           (\<exists>a2 h2'. default_config h2 = Inr (a2, h2') \<and> a2 \<noteq> a
              \<and> objects_of h2' a2 \<inter> objects_of h' a = {}))"
proof -
  let ?cfg = "\<lparr>primary_models = length h, chairman_model = ''gpt'',
                gpt = length h + 1, claude = length h + 2, gemini = length h + 3,
                perplexity = length h + 4, grok = length h + 5\<rparr>"
  let ?m1 = "\<lparr>enabled = True, model_name = ''gpt-4o'', timeout_sec = 600\<rparr>"
  let ?m2 = "\<lparr>enabled = True, model_name = ''claude-sonnet-4-20250514'', timeout_sec = 600\<rparr>"
  let ?m3 = "\<lparr>enabled = False, model_name = ''gemini-1.5-pro'', timeout_sec = 600\<rparr>"
  let ?m4 = "\<lparr>enabled = False, model_name = ''sonar-pro'', timeout_sec = 600\<rparr>"
  let ?m5 = "\<lparr>enabled = False, model_name = ''grok-2'', timeout_sec = 600\<rparr>"
  let ?h' = "h @ [PyList [''gpt'', ''claude''], PyModelConfig ?m1, PyModelConfig ?m2,
                  PyModelConfig ?m3, PyModelConfig ?m4, PyModelConfig ?m5, PyConfig ?cfg]"
  let ?a = "length h + 6"
  have dc: "default_config h = Inr (?a, ?h')"
    by (rule default_config_eq)
  have l: "lookup ?h' ?a = Some (PyConfig ?cfg)"
      "lookup ?h' (length h) = Some (PyList [''gpt'', ''claude''])"
      "lookup ?h' (length h + 1) = Some (PyModelConfig ?m1)"
      "lookup ?h' (length h + 2) = Some (PyModelConfig ?m2)"
      "lookup ?h' (length h + 3) = Some (PyModelConfig ?m3)"
      "lookup ?h' (length h + 4) = Some (PyModelConfig ?m4)"
      "lookup ?h' (length h + 5) = Some (PyModelConfig ?m5)"
    by (simp_all add: lookup_def nth_append)
  have d: "distinct (?a # Config_refs ?cfg)"
    by (simp add: Config_refs_def)
  have ob: "objects_of ?h' ?a = {length h + 6, length h, length h + 1, length h + 2,
                                length h + 3, length h + 4, length h + 5}"
    using objects_of_default[OF dc] by simp
  have new: "\<forall>b \<in> objects_of ?h' ?a. length h \<le> b \<and> b < length ?h'"
    unfolding ob by simp
  have other: "\<exists>a2 h2'. default_config h2 = Inr (a2, h2') \<and> a2 \<noteq> ?a
              \<and> objects_of h2' a2 \<inter> objects_of ?h' ?a = {}"
    if "length ?h' \<le> length h2" for h2
  proof -
    obtain a2 h2' where dc2: "default_config h2 = Inr (a2, h2')"
      by (simp add: default_config_eq)
    from objects_of_default[OF dc2] that have "a2 \<noteq> ?a"
      and "objects_of h2' a2 \<inter> objects_of ?h' ?a = {}"
      unfolding ob by auto
    with dc2 show ?thesis by blast
  qed
  show ?thesis
    apply (rule exI[of _ ?a], rule exI[of _ ?h'], rule exI[of _ ?cfg])
    apply (rule exI[of _ ?m1], rule exI[of _ ?m2], rule exI[of _ ?m3])
    apply (rule exI[of _ ?m4], rule exI[of _ ?m5])
    using dc l d new other by simp
qed

theorem default_config_new_instance_witness:
  "\<exists>a h'. default_config [] = Inr (a, h')
     \<and> (\<exists>a2 h2'. default_config h' = Inr (a2, h2') \<and> a2 \<noteq> a
           \<and> objects_of h2' a2 \<inter> objects_of h' a = {})"
proof -
  from default_config_new_instance[of "[]"] obtain a h' where
    dc: "default_config [] = Inr (a, h')" and
    other: "\<forall>h2. length h' \<le> length h2 \<longrightarrow>
           (\<exists>a2 h2'. default_config h2 = Inr (a2, h2') \<and> a2 \<noteq> a
              \<and> objects_of h2' a2 \<inter> objects_of h' a = {})"
    by blast
  from other have "\<exists>a2 h2'. default_config h' = Inr (a2, h2') \<and> a2 \<noteq> a
              \<and> objects_of h2' a2 \<inter> objects_of h' a = {}"
    by simp
  with dc show ?thesis by blast
qed

subsection \<open>\<open>get_model_config\<close>\<close>

text \<open>
  C1 says that \<open>get_model_config\<close> returns one of the five stored \<open>ModelConfig\<close> objects
  or raises the lookup error, and its docstring says that it raises \<open>KeyError\<close> ``if
  model_id is not a valid model identifier''. The code tests \<open>hasattr\<close>, so it raises
  nothing for the name of any other attribute of the object and returns that attribute:
  the list of primary models, the chairman string, a bound method.
\<close>

theorem get_model_config_returns_any_attribute:
  "get_model_config inherited self ''primary_models'' = Inr (Ref (primary_models self))
   \<and> get_model_config inherited self ''chairman_model'' = Inr (Str (chairman_model self))
   \<and> get_model_config inherited self ''get_model_config'' = Inr (BoundMethod ''get_model_config'')"
  by (simp add: get_model_config_def Config_getattr_def)

text \<open>
  For the five identifiers \<open>get_model_config\<close> returns the object stored in the field of
  that name, and for \<open>"unknown"\<close>, which the class does not define, it raises \<open>KeyError\<close>
  with the message that names it, unless the instance inherits an attribute of that
  name.
\<close>

theorem get_model_config_known:
  "get_model_config inherited self ''gpt'' = Inr (Ref (gpt self))
   \<and> get_model_config inherited self ''claude'' = Inr (Ref (claude self))
   \<and> get_model_config inherited self ''gemini'' = Inr (Ref (gemini self))
   \<and> get_model_config inherited self ''perplexity'' = Inr (Ref (perplexity self))
   \<and> get_model_config inherited self ''grok'' = Inr (Ref (grok self))
   \<and> get_model_config inherited self ''unknown'' =
       (if inherited ''unknown'' then Inr (Inherited ''unknown'')
        else Inl (KeyError (''Unknown model_id: 'unknown'' @ [CHR 0x27])))"
  by (simp add: get_model_config_def Config_getattr_def)

subsection \<open>\<open>load_api_keys\<close>\<close>

lemma strip_Nil: "strip [] = []"
  by (simp add: strip_def)

lemma load_step_eq:
  "load_step env (model_id, env_var) keys =
     (case env env_var of
        None \<Rightarrow> keys
      | Some raw \<Rightarrow> if strip raw = [] then keys else keys(model_id \<mapsto> strip raw))"
  by (auto simp: load_step_def Let_def strip_Nil split: option.splits)

lemma fold_load_step:
  "distinct (map fst tbl) \<Longrightarrow>
   fold (load_step env) tbl keys model_id =
     (case map_of tbl model_id of
        None \<Rightarrow> keys model_id
      | Some env_var \<Rightarrow>
          (case env env_var of
             None \<Rightarrow> keys model_id
           | Some raw \<Rightarrow> if strip raw = [] then keys model_id else Some (strip raw)))"
proof (induction tbl arbitrary: keys model_id)
  case Nil
  then show ?case by simp
next
  case (Cons item tbl)
  obtain m v where item: "item = (m, v)" by (cases item)
  from Cons.prems item have notin: "map_of tbl m = None" and d: "distinct (map fst tbl)"
    by (auto simp: map_of_eq_None_iff)
  show ?case
  proof (cases "model_id = m")
    case True
    with notin show ?thesis
      by (simp add: item Cons.IH[OF d] load_step_eq split: option.splits)
  next
    case False
    then show ?thesis
      by (simp add: item Cons.IH[OF d] load_step_eq split: option.splits)
  qed
qed

lemma load_api_keys_lookup:
  "load_api_keys env model_id =
     (case map_of API_KEY_ENV_VARS model_id of
        None \<Rightarrow> None
      | Some env_var \<Rightarrow>
          (case env env_var of
             None \<Rightarrow> None
           | Some raw \<Rightarrow> if strip raw = [] then None else Some (strip raw)))"
proof -
  have "distinct (map fst API_KEY_ENV_VARS)"
    by (simp add: API_KEY_ENV_VARS_def)
  then show ?thesis
    unfolding load_api_keys_def by (simp add: fold_load_step)
qed


text \<open>The cases of the tests in one environment.\<close>

lemma load_api_keys_example:
  "load_api_keys [''OPENAI_API_KEY'' \<mapsto> ''  sk-test  '', ''ANTHROPIC_API_KEY'' \<mapsto> ''   '',
                  ''GOOGLE_API_KEY'' \<mapsto> '''']
     = [''gpt'' \<mapsto> ''sk-test'']"
proof
  fix m
  show "load_api_keys [''OPENAI_API_KEY'' \<mapsto> ''  sk-test  '', ''ANTHROPIC_API_KEY'' \<mapsto> ''   '',
                  ''GOOGLE_API_KEY'' \<mapsto> ''''] m
     = [''gpt'' \<mapsto> ''sk-test''] m"
    by (simp add: load_api_keys_lookup API_KEY_ENV_VARS_def strip_def isspace_def)
qed

subsection \<open>\<open>get_env_var_name\<close>\<close>

text \<open>
  C6. \<open>get_env_var_name\<close> returns the literal variable name of each of the five
  identifiers, and raises \<open>KeyError\<close> for every other identifier.
\<close>

theorem get_env_var_name_table:
  "get_env_var_name ''gpt'' = Inr ''OPENAI_API_KEY''
   \<and> get_env_var_name ''claude'' = Inr ''ANTHROPIC_API_KEY''
   \<and> get_env_var_name ''gemini'' = Inr ''GOOGLE_API_KEY''
   \<and> get_env_var_name ''perplexity'' = Inr ''PERPLEXITY_API_KEY''
   \<and> get_env_var_name ''grok'' = Inr ''GROK_API_KEY''
   \<and> (model_id \<notin> {''gpt'', ''claude'', ''gemini'', ''perplexity'', ''grok''} \<longrightarrow>
        get_env_var_name model_id = Inl (KeyError model_id))"
  by (simp add: get_env_var_name_def API_KEY_ENV_VARS_def)

theorem get_env_var_name_table_witness:
  "''unknown'' \<notin> {''gpt'', ''claude'', ''gemini'', ''perplexity'', ''grok''}
   \<and> get_env_var_name ''unknown'' = Inl (KeyError ''unknown'')
   \<and> get_env_var_name ''grok'' = Inr ''GROK_API_KEY''"
  using get_env_var_name_table[of "''unknown''"] by simp

end
